theory Spec2Isabelle
  imports Complex_Main
begin

section \<open>Lead Response Assistant: the request contract of \<open>app.py\<close>\<close>

text \<open>
  The program is one Python module, \<open>app.py\<close>. Its logic is the function
  \<open>generate_response\<close> (lines 104-128), which composes a two-message chat request from a
  constant policy prompt, a tone and a customer enquiry and sends it to a hosted model, and
  the right-hand column of \<open>main\<close> (lines 271-309), which guards the call, stores the
  result in the session state and offers to regenerate it.
\<close>

subsection \<open>Python strings\<close>

text \<open>
  A Python \<open>str\<close> is a sequence of Unicode code points; it is modelled as the list of
  those code points. Source literals are written with \<open>ascii\<close> for their ASCII part and
  with the code point itself elsewhere (the em dash U+2014 is \<open>8212\<close>).
\<close>

type_synonym pystr = "nat list"

definition ascii :: "string \<Rightarrow> pystr" where
  "ascii s = map of_char s"

text \<open>
  \<open>str.isspace\<close> for one code point, as CPython's Unicode database has it; \<open>str.strip()\<close>
  with no argument removes the leading and the trailing code points that satisfy it.
\<close>

definition py_isspace :: "nat \<Rightarrow> bool" where
  "py_isspace c \<longleftrightarrow>
     (9 \<le> c \<and> c \<le> 13) \<or> (28 \<le> c \<and> c \<le> 32) \<or> c = 133 \<or> c = 160 \<or> c = 5760 \<or>
     (8192 \<le> c \<and> c \<le> 8202) \<or> c = 8232 \<or> c = 8233 \<or> c = 8239 \<or> c = 8287 \<or> c = 12288"

definition strip :: "pystr \<Rightarrow> pystr" where
  "strip s = rev (dropWhile py_isspace (rev (dropWhile py_isspace s)))"

subsection \<open>Configuration and the policy prompt (lines 30-94)\<close>

definition MODEL_ID :: pystr where
  "MODEL_ID = ascii ''llama-3.3-70b-versatile''"

text \<open>
  The triple-quoted literal of lines 35-94 consists of the lines 35 to 93, each ended by a
  line feed (the closing quotes stand on a line of their own).
\<close>

definition py_lines :: "pystr list \<Rightarrow> pystr" where
  "py_lines ls = concat (map (\<lambda>l. l @ [10]) ls)"

definition SYSTEM_PROMPT :: pystr where
  "SYSTEM_PROMPT = py_lines [
     ascii ''You are a customer response assistant for a property inspection company.'',
     [],
     ascii ''Your task is to generate a polite, professional, and human-sounding reply to a customer enquiry.'',
     [],
     ascii ''STRICT RULES (must follow):'',
     ascii ''- Do NOT assume or guess the cause of the issue'',
     ascii ''- Do NOT diagnose the problem'',
     ascii ''- Do NOT mention specific causes (roof, leakage, walls, cracks, mold, inspection, repair, pricing, services) unless the customer explicitly mentions them'',
     ascii ''- Do NOT offer inspections, callbacks, site visits, or estimates'',
     ascii ''- Do NOT make promises or guarantees'',
     ascii ''- Do NOT use emojis or overly casual language'',
     [],
     ascii ''RESPONSE GUIDELINES:'',
     ascii ''- Acknowledge the customer's concern empathetically'',
     ascii ''- Ask only neutral, relevant clarifying questions'',
     ascii ''- Suggest only safe and general next steps (observation, keeping area clear, normal ventilation)'',
     ascii ''- Avoid technical jargon'',
     ascii ''- Keep the tone calm, supportive, and professional'',
     ascii ''- Keep the response concise and clear'',
     ascii ''- Reply in the same language the customer used'',
     [],
     ascii ''CRITICAL '' @ [8212] @ ascii '' Response Formatting Rules (YOU MUST FOLLOW):'',
     ascii ''You MUST format your entire response using Markdown with clear section headers. Do NOT write plain paragraphs without structure.'',
     [],
     ascii ''Use this exact template:'',
     [],
     ascii ''---'',
     [],
     ascii ''**Acknowledgement**'',
     [],
     ascii ''(1-2 sentences acknowledging the customer's concern empathetically)'',
     [],
     ascii ''---'',
     [],
     ascii ''**Clarifying Questions**'',
     [],
     ascii ''To understand your situation better, could you share:'',
     [],
     ascii ''1. (First neutral clarifying question)'',
     ascii ''2. (Second neutral clarifying question)'',
     ascii ''3. (Third neutral clarifying question)'',
     [],
     ascii ''---'',
     [],
     ascii ''**Suggested Next Steps**'',
     [],
     ascii ''In the meantime, here are a few things you can do:'',
     [],
     ascii ''- (First safe, general step)'',
     ascii ''- (Second safe, general step)'',
     ascii ''- (Third safe, general step)'',
     [],
     ascii ''---'',
     [],
     ascii ''**Closing**'',
     [],
     ascii ''(A warm, professional closing '' @ [8212] @ ascii '' let them know someone will get back once they share more details)'',
     [],
     ascii ''---'']"

subsection \<open>Messages, requests and the provider\<close>

record message =
  role :: pystr
  content :: pystr

text \<open>
  The keyword arguments of \<open>client.chat.completions.create\<close> (lines 121-127). The two
  float literals are kept as the decimal constants the source writes; the program does no
  arithmetic on them.
\<close>

record request =
  model :: pystr
  messages :: "message list"
  temperature :: rat
  max_tokens :: int
  top_p :: rat

text \<open>
  An exception raised by the provider call carries its text (what \<open>str(e)\<close> gives);
  \<open>IndexError\<close> is what \<open>choices[0]\<close> raises on an empty list.
\<close>

datatype exn = ProviderFailure pystr | IndexError

fun exn_str :: "exn \<Rightarrow> pystr" where
  "exn_str (ProviderFailure msg) = msg"
| "exn_str IndexError = ascii ''list index out of range''"

text \<open>
  A completion is read only through \<open>choices[0].message.content\<close>: it is modelled as the
  list of the message contents of its choices. The client handle that
  \<open>get_groq_client\<close> returns is the provider: a call either raises or returns a
  completion, and its outcome may depend on the requests issued before it, so that the
  same request can be answered differently each time.
\<close>

type_synonym completion = "pystr list"

type_synonym provider = "request list \<Rightarrow> request \<Rightarrow> exn + completion"

subsection \<open>\<open>generate_response\<close> (lines 104-128)\<close>

text \<open>The local variable \<open>tone_instruction\<close> after the \<open>if\<close>/\<open>elif\<close> chain of lines 108-114.\<close>

definition tone_instruction :: "pystr \<Rightarrow> pystr" where
  "tone_instruction tone =
     (if tone = ascii ''Friendly & Casual'' then
        ascii ''Use a friendly, casual tone '' @ [8212] @ ascii '' like talking to a neighbour.''
      else if tone = ascii ''Formal & Professional'' then
        ascii ''Use a formal, professional tone suitable for corporate communication.''
      else if tone = ascii ''Empathetic & Supportive'' then
        ascii ''Use an extra empathetic and supportive tone '' @ [8212] @ ascii '' the customer may be stressed.''
      else [])"

text \<open>The local variable \<open>messages\<close> of lines 116-119.\<close>

definition compose_messages :: "pystr \<Rightarrow> pystr \<Rightarrow> message list" where
  "compose_messages enquiry tone =
     [\<lparr>role = ascii ''system'',
       content = SYSTEM_PROMPT @ ascii ''\<newline>\<newline>'' @ tone_instruction tone\<rparr>,
      \<lparr>role = ascii ''user'', content = enquiry\<rparr>]"

text \<open>The request of lines 121-127.\<close>

definition build_request :: "pystr \<Rightarrow> pystr \<Rightarrow> request" where
  "build_request enquiry tone =
     \<lparr>model = MODEL_ID,
      messages = compose_messages enquiry tone,
      temperature = 0.5,
      max_tokens = 1024,
      top_p = 0.9\<rparr>"

text \<open>
  The function itself: it takes the log of the requests issued so far and returns its
  result, an exception or the text of the first choice, with the log extended by the one
  request it issues.
\<close>

definition generate_response ::
  "provider \<Rightarrow> pystr \<Rightarrow> pystr \<Rightarrow> request list \<Rightarrow> (exn + pystr) \<times> request list" where
  "generate_response client enquiry tone issued =
     (let req = build_request enquiry tone in
      (case client issued req of
         Inl e \<Rightarrow> Inl e
       | Inr chat_completion \<Rightarrow>
           (case chat_completion of
              [] \<Rightarrow> Inl IndexError
            | c # _ \<Rightarrow> Inr c),
       issued @ [req]))"

subsection \<open>The interactive shell: the right-hand column of \<open>main\<close> (lines 271-309)\<close>

text \<open>
  A run of the script reads the widgets (\<open>inputs\<close>), reads and writes
  \<open>st.session_state\<close>, a dictionary keyed by strings, and calls Streamlit to draw.
  The calls that show a warning, an error, the hint or the stored response, and
  \<open>st.rerun\<close>, are recorded in order; the static markup, which neither reads nor
  writes any state, is not.
\<close>

record inputs =
  enquiry :: pystr
  tone :: pystr
  generate_btn :: bool
  regenerate_btn :: bool

datatype st_call =
  St_warning pystr | St_error pystr | St_info pystr | St_markdown pystr | St_code pystr | St_rerun

record run_state =
  session :: "pystr \<rightharpoonup> pystr"
  calls :: "request list"
  ui :: "st_call list"

definition k_response :: pystr where
  "k_response = ascii ''last_response''"

definition k_enquiry :: pystr where
  "k_enquiry = ascii ''last_enquiry''"

definition warning_text :: pystr where
  "warning_text = [9888, 65039] @ ascii '' Please enter a customer enquiry first.''"

definition info_text :: pystr where
  "info_text = [128072] @
     ascii '' Enter a customer enquiry on the left and click **Generate Response**.''"

text \<open>\<open>st.session_state.get(key, default)\<close>.\<close>

definition session_get :: "(pystr \<rightharpoonup> pystr) \<Rightarrow> pystr \<Rightarrow> pystr \<Rightarrow> pystr" where
  "session_get s key dflt = (case s key of Some v \<Rightarrow> v | None \<Rightarrow> dflt)"

text \<open>Lines 274-284: the \<open>Generate Response\<close> button.\<close>

definition generate_action :: "provider \<Rightarrow> inputs \<Rightarrow> run_state \<Rightarrow> run_state" where
  "generate_action client inp st =
     (if generate_btn inp then
        (if strip (enquiry inp) = [] then
           st\<lparr>ui := ui st @ [St_warning warning_text]\<rparr>
         else
           (case generate_response client (enquiry inp) (tone inp) (calls st) of
              (Inr response, issued) \<Rightarrow>
                st\<lparr>session := (session st)(k_response \<mapsto> response, k_enquiry \<mapsto> enquiry inp),
                   calls := issued\<rparr>
            | (Inl e, issued) \<Rightarrow>
                st\<lparr>calls := issued,
                   ui := ui st @ [St_error ([10060] @ ascii '' Error from Groq API: '' @ exn_str e)]\<rparr>))
      else st)"

text \<open>
  Lines 287-309: the stored response, the \<open>Regenerate\<close> button under it, or the hint.
  \<open>st.rerun\<close> ends the run (it raises a control exception that \<open>except Exception\<close>
  does not catch), and nothing follows it that touches the state.
\<close>

definition display_action :: "provider \<Rightarrow> inputs \<Rightarrow> run_state \<Rightarrow> run_state" where
  "display_action client inp st =
     (case session st k_response of
        Some last_response \<Rightarrow>
          (let st1 = st\<lparr>ui := ui st @ [St_markdown last_response, St_code last_response]\<rparr> in
           if regenerate_btn inp then
             (case generate_response client
                     (session_get (session st1) k_enquiry []) (tone inp) (calls st1) of
                (Inr response, issued) \<Rightarrow>
                  st1\<lparr>session := (session st1)(k_response \<mapsto> response),
                      calls := issued,
                      ui := ui st1 @ [St_rerun]\<rparr>
              | (Inl e, issued) \<Rightarrow>
                  st1\<lparr>calls := issued,
                      ui := ui st1 @ [St_error ([10060] @ ascii '' Error: '' @ exn_str e)]\<rparr>)
           else st1)
      | None \<Rightarrow> st\<lparr>ui := ui st @ [St_info info_text]\<rparr>)"

definition main :: "provider \<Rightarrow> inputs \<Rightarrow> run_state \<Rightarrow> run_state" where
  "main client inp st = display_action client inp (generate_action client inp st)"

text \<open>
  A session starts with an empty session state; every interaction runs the script once
  more, on a fresh page and on the session state the run before it left.
\<close>

definition initial :: run_state where
  "initial = \<lparr>session = Map.empty, calls = [], ui = []\<rparr>"

fun run_session :: "provider \<Rightarrow> inputs list \<Rightarrow> run_state \<Rightarrow> run_state" where
  "run_session client [] st = st"
| "run_session client (inp # inps) st = run_session client inps (main client inp (st\<lparr>ui := []\<rparr>))"

text \<open>
  The invariant of the session: a stored response comes with a stored enquiry that is not
  blank, and every request issued so far carries a user message that is not blank.
\<close>

definition session_ok :: "run_state \<Rightarrow> bool" where
  "session_ok st \<longleftrightarrow>
     (case session st k_response of
        None \<Rightarrow> True
      | Some _ \<Rightarrow> (case session st k_enquiry of None \<Rightarrow> False | Some e \<Rightarrow> strip e \<noteq> [])) \<and>
     list_all (\<lambda>r. strip (content (last (messages r))) \<noteq> []) (calls st)"

section \<open>Properties\<close>

subsection \<open>Auxiliary facts\<close>

lemma ascii_eq_iff: "ascii a = ascii b \<longleftrightarrow> a = b"
  unfolding ascii_def using inj_of_char [where ?'a = nat] by (simp add: inj_map_eq_map)

lemma keys_distinct: "k_response \<noteq> k_enquiry"
  by (simp add: k_response_def k_enquiry_def ascii_eq_iff)

text \<open>\<open>strip\<close> leaves nothing exactly when every code point is white space.\<close>

lemma strip_eq_Nil_iff: "strip s = [] \<longleftrightarrow> (\<forall>c\<in>set s. py_isspace c)"
proof
  assume "strip s = []"
  then have "dropWhile py_isspace (rev (dropWhile py_isspace s)) = []"
    by (simp add: strip_def)
  then have "\<forall>c\<in>set (dropWhile py_isspace s). py_isspace c"
    by simp
  then have "dropWhile py_isspace s = []"
    using hd_dropWhile [of py_isspace s] hd_in_set [of "dropWhile py_isspace s"] by blast
  then show "\<forall>c\<in>set s. py_isspace c"
    by simp
next
  assume "\<forall>c\<in>set s. py_isspace c"
  then show "strip s = []"
    by (auto simp: strip_def dest: set_dropWhileD)
qed

lemma newlines: "ascii ''\<newline>\<newline>'' = [10, 10]"
  by (simp add: ascii_def)

lemma snd_generate_response:
  "snd (generate_response client e t issued) = issued @ [build_request e t]"
  by (simp add: generate_response_def Let_def)

lemma fst_generate_response:
  "fst (generate_response client e t issued) =
     (case client issued (build_request e t) of
        Inl err \<Rightarrow> Inl err
      | Inr cs \<Rightarrow> (case cs of [] \<Rightarrow> Inl IndexError | c # _ \<Rightarrow> Inr c))"
  by (simp add: generate_response_def Let_def)

text \<open>What each of the two blocks of \<open>main\<close> does, case by case.\<close>

lemma generate_action_idle:
  "\<not> generate_btn inp \<Longrightarrow> generate_action client inp st = st"
  by (simp add: generate_action_def)

lemma generate_action_blank:
  "generate_btn inp \<Longrightarrow> strip (enquiry inp) = [] \<Longrightarrow>
   generate_action client inp st = st\<lparr>ui := ui st @ [St_warning warning_text]\<rparr>"
  by (simp add: generate_action_def)

lemma generate_action_raises:
  "generate_btn inp \<Longrightarrow> strip (enquiry inp) \<noteq> [] \<Longrightarrow>
   fst (generate_response client (enquiry inp) (tone inp) (calls st)) = Inl err \<Longrightarrow>
   generate_action client inp st =
     st\<lparr>calls := calls st @ [build_request (enquiry inp) (tone inp)],
        ui := ui st @ [St_error ([10060] @ ascii '' Error from Groq API: '' @ exn_str err)]\<rparr>"
  by (cases "generate_response client (enquiry inp) (tone inp) (calls st)")
     (use snd_generate_response [of client "enquiry inp" "tone inp" "calls st"] in
       \<open>simp add: generate_action_def\<close>)

lemma generate_action_returns:
  "generate_btn inp \<Longrightarrow> strip (enquiry inp) \<noteq> [] \<Longrightarrow>
   fst (generate_response client (enquiry inp) (tone inp) (calls st)) = Inr c \<Longrightarrow>
   generate_action client inp st =
     st\<lparr>session := (session st)(k_response \<mapsto> c, k_enquiry \<mapsto> enquiry inp),
        calls := calls st @ [build_request (enquiry inp) (tone inp)]\<rparr>"
  by (cases "generate_response client (enquiry inp) (tone inp) (calls st)")
     (use snd_generate_response [of client "enquiry inp" "tone inp" "calls st"] in
       \<open>simp add: generate_action_def\<close>)

lemma display_action_empty:
  "session st k_response = None \<Longrightarrow>
   display_action client inp st = st\<lparr>ui := ui st @ [St_info info_text]\<rparr>"
  by (simp add: display_action_def)

lemma display_action_idle:
  "session st k_response = Some r \<Longrightarrow> \<not> regenerate_btn inp \<Longrightarrow>
   display_action client inp st = st\<lparr>ui := ui st @ [St_markdown r, St_code r]\<rparr>"
  by (simp add: display_action_def)

lemma display_action_raises:
  "session st k_response = Some r \<Longrightarrow> regenerate_btn inp \<Longrightarrow>
   fst (generate_response client (session_get (session st) k_enquiry []) (tone inp) (calls st)) =
     Inl err \<Longrightarrow>
   display_action client inp st =
     st\<lparr>calls := calls st @ [build_request (session_get (session st) k_enquiry []) (tone inp)],
        ui := ui st @ [St_markdown r, St_code r,
          St_error ([10060] @ ascii '' Error: '' @ exn_str err)]\<rparr>"
  by (cases "generate_response client (session_get (session st) k_enquiry []) (tone inp) (calls st)")
     (use snd_generate_response [of client "session_get (session st) k_enquiry []" "tone inp" "calls st"] in
       \<open>simp add: display_action_def\<close>)

lemma display_action_returns:
  "session st k_response = Some r \<Longrightarrow> regenerate_btn inp \<Longrightarrow>
   fst (generate_response client (session_get (session st) k_enquiry []) (tone inp) (calls st)) =
     Inr c \<Longrightarrow>
   display_action client inp st =
     st\<lparr>session := (session st)(k_response \<mapsto> c),
        calls := calls st @ [build_request (session_get (session st) k_enquiry []) (tone inp)],
        ui := ui st @ [St_markdown r, St_code r, St_rerun]\<rparr>"
  by (cases "generate_response client (session_get (session st) k_enquiry []) (tone inp) (calls st)")
     (use snd_generate_response [of client "session_get (session st) k_enquiry []" "tone inp" "calls st"] in
       \<open>simp add: display_action_def\<close>)

lemma user_content_build_request: "content (last (messages (build_request e t))) = e"
  by (simp add: build_request_def compose_messages_def)

lemma calls_display_action:
  "calls (display_action client inp st) =
     (if session st k_response \<noteq> None \<and> regenerate_btn inp
      then calls st @ [build_request (session_get (session st) k_enquiry []) (tone inp)]
      else calls st)"
proof (cases "session st k_response")
  case None
  then show ?thesis by (simp add: display_action_empty)
next
  case (Some r)
  show ?thesis
  proof (cases "regenerate_btn inp")
    case False
    with Some show ?thesis by (simp add: display_action_idle)
  next
    case True
    show ?thesis
    proof (cases "fst (generate_response client (session_get (session st) k_enquiry [])
        (tone inp) (calls st))")
      case (Inl err)
      with Some True show ?thesis by (simp add: display_action_raises)
    next
      case (Inr c)
      with Some True show ?thesis by (simp add: display_action_returns)
    qed
  qed
qed

lemma strip_nonblank: "\<not> py_isspace c \<Longrightarrow> strip (c # cs) \<noteq> []"
  by (auto simp: strip_eq_Nil_iff)

lemma damp_nonblank: "strip (ascii ''My wall is damp.'') \<noteq> []"
  by (simp add: ascii_def strip_nonblank py_isspace_def)

text \<open>Both blocks of \<open>main\<close>, and so every run of a session, keep the invariant.\<close>

lemma session_ok_generate_action:
  assumes "session_ok st"
  shows "session_ok (generate_action client inp st)"
proof (cases "generate_btn inp")
  case False
  with assms show ?thesis by (simp add: generate_action_idle)
next
  case True
  show ?thesis
  proof (cases "strip (enquiry inp) = []")
    case True
    with \<open>generate_btn inp\<close> assms show ?thesis
      by (simp add: generate_action_blank session_ok_def split: option.splits)
  next
    case False
    show ?thesis
    proof (cases "fst (generate_response client (enquiry inp) (tone inp) (calls st))")
      case (Inl err)
      with True False assms show ?thesis
        by (simp add: generate_action_raises session_ok_def user_content_build_request
            split: option.splits)
    next
      case (Inr c)
      with True False assms keys_distinct show ?thesis
        by (simp add: generate_action_returns session_ok_def user_content_build_request
            split: option.splits)
    qed
  qed
qed

lemma session_ok_display_action:
  assumes "session_ok st"
  shows "session_ok (display_action client inp st)"
proof (cases "session st k_response")
  case None
  with assms show ?thesis
    by (simp add: display_action_empty session_ok_def split: option.splits)
next
  case (Some r)
  with assms obtain e where e: "session st k_enquiry = Some e" "strip e \<noteq> []"
    by (auto simp: session_ok_def split: option.splits)
  then have get: "session_get (session st) k_enquiry [] = e"
    by (simp add: session_get_def)
  show ?thesis
  proof (cases "regenerate_btn inp")
    case False
    with Some assms show ?thesis
      by (simp add: display_action_idle session_ok_def split: option.splits)
  next
    case True
    show ?thesis
    proof (cases "fst (generate_response client e (tone inp) (calls st))")
      case (Inl err)
      with Some True assms e get show ?thesis
        by (simp add: display_action_raises session_ok_def user_content_build_request
            split: option.splits)
    next
      case (Inr c)
      with Some True assms e get keys_distinct [symmetric] show ?thesis
        by (simp add: display_action_returns session_ok_def user_content_build_request
            split: option.splits)
    qed
  qed
qed

lemma session_ok_run_session:
  "session_ok st \<Longrightarrow> session_ok (run_session client inps st)"
proof (induction inps arbitrary: st)
  case Nil
  then show ?case by simp
next
  case (Cons inp inps)
  from Cons.prems have "session_ok (st\<lparr>ui := []\<rparr>)"
    by (simp add: session_ok_def split: option.splits)
  then have "session_ok (main client inp (st\<lparr>ui := []\<rparr>))"
    by (simp add: main_def session_ok_generate_action session_ok_display_action)
  then show ?case by (simp add: Cons.IH)
qed

lemma session_ok_initial: "session_ok initial"
  by (simp add: session_ok_def initial_def)

subsection \<open>The composer\<close>

text \<open>
  C1. For every non-empty enquiry and each of the three tones of the selection box, the
  messages that \<open>generate_response\<close> builds are exactly two, in this order: a system
  message whose content is the policy prompt, two line feeds and the instruction of that
  tone, and a user message whose content is the enquiry as it was given; these are the
  messages of the one request the function issues.
\<close>

theorem compose_valid_tone:
  assumes "e \<noteq> []"
    and "(t, fragment) \<in>
      {(ascii ''Friendly & Casual'',
        ascii ''Use a friendly, casual tone '' @ [8212] @ ascii '' like talking to a neighbour.''),
       (ascii ''Formal & Professional'',
        ascii ''Use a formal, professional tone suitable for corporate communication.''),
       (ascii ''Empathetic & Supportive'',
        ascii ''Use an extra empathetic and supportive tone '' @ [8212] @
          ascii '' the customer may be stressed.'')}"
  shows "compose_messages e t =
      [\<lparr>role = ascii ''system'', content = SYSTEM_PROMPT @ [10, 10] @ fragment\<rparr>,
       \<lparr>role = ascii ''user'', content = e\<rparr>] \<and>
    map messages (snd (generate_response client e t issued)) =
      map messages issued @ [compose_messages e t]"
proof -
  from assms(2) have "tone_instruction t = fragment"
    by (auto simp: tone_instruction_def ascii_eq_iff)
  then have "compose_messages e t =
      [\<lparr>role = ascii ''system'', content = SYSTEM_PROMPT @ [10, 10] @ fragment\<rparr>,
       \<lparr>role = ascii ''user'', content = e\<rparr>]"
    by (simp add: compose_messages_def newlines)
  moreover have "map messages (snd (generate_response client e t issued)) =
      map messages issued @ [compose_messages e t]"
    by (simp add: snd_generate_response build_request_def)
  ultimately show ?thesis by simp
qed

text \<open>The scenario of the specification: a formal reply to a report of damp patches.\<close>

theorem compose_valid_tone_witness:
  "ascii ''Hi, I see damp patches on my wall after rain.'' \<noteq> [] \<and>
   compose_messages (ascii ''Hi, I see damp patches on my wall after rain.'')
       (ascii ''Formal & Professional'') =
     [\<lparr>role = ascii ''system'',
       content = SYSTEM_PROMPT @ [10, 10] @
         ascii ''Use a formal, professional tone suitable for corporate communication.''\<rparr>,
      \<lparr>role = ascii ''user'',
       content = ascii ''Hi, I see damp patches on my wall after rain.''\<rparr>]"
proof -
  have nonempty: "ascii ''Hi, I see damp patches on my wall after rain.'' \<noteq> []"
    by (simp add: ascii_def)
  show ?thesis
    using nonempty
      compose_valid_tone [OF nonempty,
        of "ascii ''Formal & Professional''"
           "ascii ''Use a formal, professional tone suitable for corporate communication.''"
           "\<lambda>_ _. Inr []" "[]"]
    by simp
qed

text \<open>
  C3. For every enquiry and every tone that is none of the three of the selection box, the
  composer still returns its two messages: the system message is the policy prompt and the
  two line feeds with nothing after them (the instruction is the empty string), the user
  message is the enquiry. The request is issued with these messages, and a completion the
  provider returns for it is passed on as for any other tone.
\<close>

theorem compose_unknown_tone:
  assumes "t \<notin> {ascii ''Friendly & Casual'', ascii ''Formal & Professional'',
      ascii ''Empathetic & Supportive''}"
  shows "compose_messages e t =
      [\<lparr>role = ascii ''system'', content = SYSTEM_PROMPT @ [10, 10]\<rparr>,
       \<lparr>role = ascii ''user'', content = e\<rparr>] \<and>
    map messages (snd (generate_response client e t issued)) =
      map messages issued @ [compose_messages e t] \<and>
    (\<forall>c cs. client issued (build_request e t) = Inr (c # cs) \<longrightarrow>
       fst (generate_response client e t issued) = Inr c)"
proof -
  from assms have "tone_instruction t = []"
    by (simp add: tone_instruction_def)
  then have "compose_messages e t =
      [\<lparr>role = ascii ''system'', content = SYSTEM_PROMPT @ [10, 10]\<rparr>,
       \<lparr>role = ascii ''user'', content = e\<rparr>]"
    by (simp add: compose_messages_def newlines)
  moreover have "map messages (snd (generate_response client e t issued)) =
      map messages issued @ [compose_messages e t]"
    by (simp add: snd_generate_response build_request_def)
  moreover have "\<forall>c cs. client issued (build_request e t) = Inr (c # cs) \<longrightarrow>
       fst (generate_response client e t issued) = Inr c"
    by (simp add: fst_generate_response)
  ultimately show ?thesis by blast
qed

text \<open>A tone the selection box does not offer.\<close>

theorem compose_unknown_tone_witness:
  "ascii ''Sarcastic'' \<notin> {ascii ''Friendly & Casual'', ascii ''Formal & Professional'',
      ascii ''Empathetic & Supportive''} \<and>
   compose_messages (ascii ''My wall is damp.'') (ascii ''Sarcastic'') =
      [\<lparr>role = ascii ''system'', content = SYSTEM_PROMPT @ [10, 10]\<rparr>,
       \<lparr>role = ascii ''user'', content = ascii ''My wall is damp.''\<rparr>] \<and>
   fst (generate_response (\<lambda>_ _. Inr [ascii ''draft'', ascii ''other''])
      (ascii ''My wall is damp.'') (ascii ''Sarcastic'') []) = Inr (ascii ''draft'')"
proof -
  have unknown: "ascii ''Sarcastic'' \<notin> {ascii ''Friendly & Casual'',
      ascii ''Formal & Professional'', ascii ''Empathetic & Supportive''}"
    by (simp add: ascii_eq_iff)
  show ?thesis
    using unknown
      compose_unknown_tone [OF unknown, of "ascii ''My wall is damp.''"
        "\<lambda>_ _. Inr [ascii ''draft'', ascii ''other'']" "[]"]
    by simp
qed

subsection \<open>The guard of the generate button\<close>

text \<open>
  C2. When the generate button is pressed on an enquiry that is empty or consists of white
  space only, the generate block issues no request and changes nothing but the page, on
  which it puts the warning. In a run where the regenerate button is not pressed as well,
  the whole run issues no request, leaves the session state as it was and shows the
  warning.
\<close>

theorem blank_enquiry_refused:
  assumes "\<forall>c\<in>set (enquiry inp). py_isspace c" and "generate_btn inp"
  shows "generate_action client inp st = st\<lparr>ui := ui st @ [St_warning warning_text]\<rparr> \<and>
    (\<not> regenerate_btn inp \<longrightarrow>
       calls (main client inp st) = calls st \<and>
       session (main client inp st) = session st \<and>
       St_warning warning_text \<in> set (ui (main client inp st)))"
proof -
  from assms(1) have blank: "strip (enquiry inp) = []"
    by (simp add: strip_eq_Nil_iff)
  have refused: "generate_action client inp st = st\<lparr>ui := ui st @ [St_warning warning_text]\<rparr>"
    using assms(2) blank by (rule generate_action_blank)
  moreover have "calls (main client inp st) = calls st \<and>
       session (main client inp st) = session st \<and>
       St_warning warning_text \<in> set (ui (main client inp st))" if "\<not> regenerate_btn inp"
    using that refused
    by (cases "session st k_response")
       (simp_all add: main_def display_action_empty display_action_idle)
  ultimately show ?thesis by blast
qed

text \<open>A space, a tab, a line feed, a no-break space and an ideographic space.\<close>

theorem blank_enquiry_refused_witness:
  "list_all py_isspace [32, 9, 10, 160, 12288] \<and>
   calls (main (\<lambda>_ _. Inr [ascii ''draft''])
     \<lparr>enquiry = [32, 9, 10, 160, 12288], tone = ascii ''Friendly & Casual'',
      generate_btn = True, regenerate_btn = False\<rparr> initial) = [] \<and>
   session (main (\<lambda>_ _. Inr [ascii ''draft''])
     \<lparr>enquiry = [32, 9, 10, 160, 12288], tone = ascii ''Friendly & Casual'',
      generate_btn = True, regenerate_btn = False\<rparr> initial) = Map.empty \<and>
   St_warning warning_text \<in> set (ui (main (\<lambda>_ _. Inr [ascii ''draft''])
     \<lparr>enquiry = [32, 9, 10, 160, 12288], tone = ascii ''Friendly & Casual'',
      generate_btn = True, regenerate_btn = False\<rparr> initial))"
  using blank_enquiry_refused [of
      "\<lparr>enquiry = [32, 9, 10, 160, 12288], tone = ascii ''Friendly & Casual'',
        generate_btn = True, regenerate_btn = False\<rparr>"
      "\<lambda>_ _. Inr [ascii ''draft'']" initial]
  by (simp add: py_isspace_def initial_def)

subsection \<open>The completion client\<close>

text \<open>
  C6. Whatever the enquiry, the tone, the provider and the requests issued before, the
  request that \<open>generate_response\<close> issues names the model \<open>llama-3.3-70b-versatile\<close>
  and carries the temperature 0.5, the top-p 0.9 and the limit of 1024 tokens.
\<close>

theorem request_parameters_fixed:
  "model (last (snd (generate_response client e t issued))) = ascii ''llama-3.3-70b-versatile'' \<and>
   temperature (last (snd (generate_response client e t issued))) = 1 / 2 \<and>
   top_p (last (snd (generate_response client e t issued))) = 9 / 10 \<and>
   max_tokens (last (snd (generate_response client e t issued))) = 1024"
  by (simp add: snd_generate_response build_request_def MODEL_ID_def)

text \<open>
  C7. \<open>generate_response\<close> issues exactly one request, the one composed from its
  arguments, whatever the provider answers. When the provider returns a completion with
  at least one choice, the result is the text of the first choice; when the provider
  raises, the result is that same exception, with its text.
\<close>

theorem generate_one_request:
  "snd (generate_response client e t issued) = issued @ [build_request e t] \<and>
   (\<forall>c cs. client issued (build_request e t) = Inr (c # cs) \<longrightarrow>
      fst (generate_response client e t issued) = Inr c) \<and>
   (\<forall>err. client issued (build_request e t) = Inl err \<longrightarrow>
      fst (generate_response client e t issued) = Inl err)"
  by (simp add: snd_generate_response fst_generate_response)

text \<open>A provider that answers with two choices, and one that rejects the credential.\<close>

theorem generate_one_request_witness:
  "generate_response (\<lambda>_ _. Inr [ascii ''first'', ascii ''second''])
      (ascii ''My wall is damp.'') (ascii ''Formal & Professional'') [] =
     (Inr (ascii ''first''),
      [build_request (ascii ''My wall is damp.'') (ascii ''Formal & Professional'')]) \<and>
   generate_response (\<lambda>_ _. Inl (ProviderFailure (ascii ''Invalid API Key'')))
      (ascii ''My wall is damp.'') (ascii ''Formal & Professional'') [] =
     (Inl (ProviderFailure (ascii ''Invalid API Key'')),
      [build_request (ascii ''My wall is damp.'') (ascii ''Formal & Professional'')])"
  using
    generate_one_request [of "\<lambda>_ _. Inr [ascii ''first'', ascii ''second'']"
      "ascii ''My wall is damp.''" "ascii ''Formal & Professional''" "[]"]
    generate_one_request [of "\<lambda>_ _. Inl (ProviderFailure (ascii ''Invalid API Key''))"
      "ascii ''My wall is damp.''" "ascii ''Formal & Professional''" "[]"]
  by (simp add: prod_eq_iff)

subsection \<open>The shape of every request\<close>

text \<open>
  C8. In every request that \<open>generate_response\<close> issues, the first message has the role
  \<open>system\<close> and its content starts with the policy prompt, letter for letter, whatever the
  enquiry and the tone are; what follows the policy prompt is two line feeds and the
  instruction of the tone, and the only other message carries the enquiry. Two requests
  whose tones select the same instruction and whose enquiries are equal are equal.
\<close>

theorem policy_prompt_first:
  "role (hd (messages (last (snd (generate_response client e t issued))))) = ascii ''system'' \<and>
   take (length SYSTEM_PROMPT)
     (content (hd (messages (last (snd (generate_response client e t issued)))))) =
     SYSTEM_PROMPT \<and>
   drop (length SYSTEM_PROMPT)
     (content (hd (messages (last (snd (generate_response client e t issued)))))) =
     [10, 10] @ tone_instruction t \<and>
   map content (tl (messages (last (snd (generate_response client e t issued))))) = [e] \<and>
   (tone_instruction t = tone_instruction t' \<and> e = e' \<longrightarrow>
      build_request e t = build_request e' t')"
  by (simp add: snd_generate_response build_request_def compose_messages_def newlines)

text \<open>Two tones that the selection box does not offer select the same, empty, instruction.\<close>

theorem policy_prompt_first_witness:
  "tone_instruction (ascii ''Sarcastic'') = tone_instruction (ascii ''Stern'') \<and>
   build_request (ascii ''My wall is damp.'') (ascii ''Sarcastic'') =
     build_request (ascii ''My wall is damp.'') (ascii ''Stern'')"
proof -
  have same: "tone_instruction (ascii ''Sarcastic'') = tone_instruction (ascii ''Stern'')"
    by (simp add: tone_instruction_def ascii_eq_iff)
  show ?thesis
    using same
      policy_prompt_first [of "\<lambda>_ _. Inr []" "ascii ''My wall is damp.''" "ascii ''Sarcastic''" "[]"
        "ascii ''Stern''" "ascii ''My wall is damp.''"]
    by simp
qed

text \<open>
  C5. Two calls of \<open>generate_response\<close> with the same enquiry and the same tone issue the
  same request, whatever the provider answers and whatever was issued before: its messages
  are the system message, the policy prompt followed by two line feeds and the instruction
  of the tone, and then the user message, the enquiry. Hence, after a run that generated a
  response for an enquiry and a tone, a run in which the regenerate button is pressed under
  the same tone issues that same two-message request once more, whatever the text area
  holds by then.
\<close>

theorem regeneration_same_request:
  "messages (last (snd (generate_response client e t issued))) =
     [\<lparr>role = ascii ''system'', content = SYSTEM_PROMPT @ [10, 10] @ tone_instruction t\<rparr>,
      \<lparr>role = ascii ''user'', content = e\<rparr>] \<and>
   messages (last (snd (generate_response client' e t issued'))) =
     [\<lparr>role = ascii ''system'', content = SYSTEM_PROMPT @ [10, 10] @ tone_instruction t\<rparr>,
      \<lparr>role = ascii ''user'', content = e\<rparr>] \<and>
   last (snd (generate_response client' e t issued')) =
     last (snd (generate_response client e t issued)) \<and>
   (generate_btn inp \<and> \<not> regenerate_btn inp \<and> strip (enquiry inp) \<noteq> [] \<and>
    fst (generate_response client (enquiry inp) (tone inp) (calls st)) = Inr c \<and>
    \<not> generate_btn inp' \<and> regenerate_btn inp' \<and> tone inp' = tone inp \<longrightarrow>
      calls (main client inp st) = calls st @ [build_request (enquiry inp) (tone inp)] \<and>
      calls (main client inp' ((main client inp st)\<lparr>ui := []\<rparr>)) =
        calls (main client inp st) @ [build_request (enquiry inp) (tone inp)] \<and>
      messages (last (calls (main client inp st))) =
        [\<lparr>role = ascii ''system'',
          content = SYSTEM_PROMPT @ [10, 10] @ tone_instruction (tone inp)\<rparr>,
         \<lparr>role = ascii ''user'', content = enquiry inp\<rparr>] \<and>
      messages (last (calls (main client inp' ((main client inp st)\<lparr>ui := []\<rparr>)))) =
        [\<lparr>role = ascii ''system'',
          content = SYSTEM_PROMPT @ [10, 10] @ tone_instruction (tone inp)\<rparr>,
         \<lparr>role = ascii ''user'', content = enquiry inp\<rparr>])"
proof -
  have composed: "messages (build_request e0 t0) =
     [\<lparr>role = ascii ''system'', content = SYSTEM_PROMPT @ [10, 10] @ tone_instruction t0\<rparr>,
      \<lparr>role = ascii ''user'', content = e0\<rparr>]" for e0 t0
    by (simp add: build_request_def compose_messages_def newlines)
  have issued_last: "last (snd (generate_response cl e0 t0 is0)) = build_request e0 t0"
    for cl e0 t0 is0
    by (simp add: snd_generate_response)
  have session_part: "calls (main client inp st) = calls st @ [build_request (enquiry inp) (tone inp)] \<and>
      calls (main client inp' ((main client inp st)\<lparr>ui := []\<rparr>)) =
        calls (main client inp st) @ [build_request (enquiry inp) (tone inp)]"
    if a: "generate_btn inp \<and> \<not> regenerate_btn inp \<and> strip (enquiry inp) \<noteq> [] \<and>
      fst (generate_response client (enquiry inp) (tone inp) (calls st)) = Inr c \<and>
      \<not> generate_btn inp' \<and> regenerate_btn inp' \<and> tone inp' = tone inp"
  proof -
    from a have g: "generate_action client inp st =
       st\<lparr>session := (session st)(k_response \<mapsto> c, k_enquiry \<mapsto> enquiry inp),
          calls := calls st @ [build_request (enquiry inp) (tone inp)]\<rparr>"
      by (simp add: generate_action_returns)
    have shown: "session (generate_action client inp st) k_response = Some c"
      using keys_distinct by (simp add: g)
    from a shown have m: "main client inp st =
       st\<lparr>session := (session st)(k_response \<mapsto> c, k_enquiry \<mapsto> enquiry inp),
          calls := calls st @ [build_request (enquiry inp) (tone inp)],
          ui := ui st @ [St_markdown c, St_code c]\<rparr>"
      by (simp add: main_def display_action_idle g)
    have first: "calls (main client inp st) = calls st @ [build_request (enquiry inp) (tone inp)]"
      by (simp add: m)
    have stored: "session (main client inp st) k_response = Some c"
        "session_get (session (main client inp st)) k_enquiry [] = enquiry inp"
      using keys_distinct by (simp_all add: m session_get_def)
    have "calls (main client inp' (st1\<lparr>ui := []\<rparr>)) =
        calls st1 @ [build_request (enquiry inp) (tone inp)]"
      if "session st1 k_response = Some c" "session_get (session st1) k_enquiry [] = enquiry inp"
      for st1
      using that a by (simp add: main_def generate_action_idle calls_display_action)
    from this [OF stored] first show ?thesis by simp
  qed
  show ?thesis
  proof (intro conjI impI)
    show "messages (last (snd (generate_response client e t issued))) =
       [\<lparr>role = ascii ''system'', content = SYSTEM_PROMPT @ [10, 10] @ tone_instruction t\<rparr>,
        \<lparr>role = ascii ''user'', content = e\<rparr>]"
      by (simp only: issued_last composed)
    show "messages (last (snd (generate_response client' e t issued'))) =
       [\<lparr>role = ascii ''system'', content = SYSTEM_PROMPT @ [10, 10] @ tone_instruction t\<rparr>,
        \<lparr>role = ascii ''user'', content = e\<rparr>]"
      by (simp only: issued_last composed)
    show "last (snd (generate_response client' e t issued')) =
       last (snd (generate_response client e t issued))"
      by (simp only: issued_last)
  next
    assume a: "generate_btn inp \<and> \<not> regenerate_btn inp \<and> strip (enquiry inp) \<noteq> [] \<and>
      fst (generate_response client (enquiry inp) (tone inp) (calls st)) = Inr c \<and>
      \<not> generate_btn inp' \<and> regenerate_btn inp' \<and> tone inp' = tone inp"
    note s = session_part [OF a]
    from s show "calls (main client inp st) = calls st @ [build_request (enquiry inp) (tone inp)]"
      by simp
    from s show "calls (main client inp' ((main client inp st)\<lparr>ui := []\<rparr>)) =
        calls (main client inp st) @ [build_request (enquiry inp) (tone inp)]"
      by simp
    from s have "last (calls (main client inp st)) = build_request (enquiry inp) (tone inp)"
      by simp
    then show "messages (last (calls (main client inp st))) =
        [\<lparr>role = ascii ''system'',
          content = SYSTEM_PROMPT @ [10, 10] @ tone_instruction (tone inp)\<rparr>,
         \<lparr>role = ascii ''user'', content = enquiry inp\<rparr>]"
      by (simp only: composed)
    from s have "last (calls (main client inp' ((main client inp st)\<lparr>ui := []\<rparr>))) =
        build_request (enquiry inp) (tone inp)"
      by simp
    then show "messages (last (calls (main client inp' ((main client inp st)\<lparr>ui := []\<rparr>)))) =
        [\<lparr>role = ascii ''system'',
          content = SYSTEM_PROMPT @ [10, 10] @ tone_instruction (tone inp)\<rparr>,
         \<lparr>role = ascii ''user'', content = enquiry inp\<rparr>]"
      by (simp only: composed)
  qed
qed

text \<open>
  A generation followed by a regeneration, the text area edited in between; and the
  composer called once more for a provider that fails, after another request.
\<close>

theorem regeneration_same_request_witness:
  "calls (main (\<lambda>_ _. Inr [ascii ''Draft''])
      \<lparr>enquiry = ascii ''Something else'', tone = ascii ''Formal & Professional'',
       generate_btn = False, regenerate_btn = True\<rparr>
      ((main (\<lambda>_ _. Inr [ascii ''Draft''])
        \<lparr>enquiry = ascii ''My wall is damp.'', tone = ascii ''Formal & Professional'',
         generate_btn = True, regenerate_btn = False\<rparr> initial)\<lparr>ui := []\<rparr>)) =
     [build_request (ascii ''My wall is damp.'') (ascii ''Formal & Professional''),
      build_request (ascii ''My wall is damp.'') (ascii ''Formal & Professional'')] \<and>
   messages (last (calls (main (\<lambda>_ _. Inr [ascii ''Draft''])
      \<lparr>enquiry = ascii ''Something else'', tone = ascii ''Formal & Professional'',
       generate_btn = False, regenerate_btn = True\<rparr>
      ((main (\<lambda>_ _. Inr [ascii ''Draft''])
        \<lparr>enquiry = ascii ''My wall is damp.'', tone = ascii ''Formal & Professional'',
         generate_btn = True, regenerate_btn = False\<rparr> initial)\<lparr>ui := []\<rparr>)))) =
     [\<lparr>role = ascii ''system'',
       content = SYSTEM_PROMPT @ [10, 10] @
         ascii ''Use a formal, professional tone suitable for corporate communication.''\<rparr>,
      \<lparr>role = ascii ''user'', content = ascii ''My wall is damp.''\<rparr>] \<and>
   messages (last (snd (generate_response (\<lambda>_ _. Inl IndexError)
       (ascii ''My wall is damp.'') (ascii ''Formal & Professional'')
       [build_request [] []]))) =
     [\<lparr>role = ascii ''system'',
       content = SYSTEM_PROMPT @ [10, 10] @
         ascii ''Use a formal, professional tone suitable for corporate communication.''\<rparr>,
      \<lparr>role = ascii ''user'', content = ascii ''My wall is damp.''\<rparr>]"
proof -
  let ?client = "\<lambda>_ _. Inr [ascii ''Draft'']"
  let ?inp = "\<lparr>enquiry = ascii ''My wall is damp.'', tone = ascii ''Formal & Professional'',
         generate_btn = True, regenerate_btn = False\<rparr>"
  let ?inp' = "\<lparr>enquiry = ascii ''Something else'', tone = ascii ''Formal & Professional'',
       generate_btn = False, regenerate_btn = True\<rparr>"
  have formal: "tone_instruction (ascii ''Formal & Professional'') =
      ascii ''Use a formal, professional tone suitable for corporate communication.''"
    by (simp add: tone_instruction_def ascii_eq_iff)
  note same = regeneration_same_request [where
      client = ?client and client' = "\<lambda>_ _. Inl IndexError" and
      inp = ?inp and inp' = ?inp' and
      st = initial and c = "ascii ''Draft''" and e = "ascii ''My wall is damp.''" and
      t = "ascii ''Formal & Professional''" and issued = "[]" and
      issued' = "[build_request [] []]"]
  have pressed: "generate_btn ?inp \<and> \<not> regenerate_btn ?inp \<and> strip (enquiry ?inp) \<noteq> [] \<and>
      fst (generate_response ?client (enquiry ?inp) (tone ?inp) (calls initial)) =
        Inr (ascii ''Draft'') \<and>
      \<not> generate_btn ?inp' \<and> regenerate_btn ?inp' \<and> tone ?inp' = tone ?inp"
    using damp_nonblank by (simp add: fst_generate_response)
  note session_part = same [THEN conjunct2, THEN conjunct2, THEN conjunct2, THEN mp, OF pressed]
  have "calls (main ?client ?inp' ((main ?client ?inp initial)\<lparr>ui := []\<rparr>)) =
     [build_request (ascii ''My wall is damp.'') (ascii ''Formal & Professional''),
      build_request (ascii ''My wall is damp.'') (ascii ''Formal & Professional'')]"
    using session_part [THEN conjunct1] session_part [THEN conjunct2, THEN conjunct1]
    by (simp add: initial_def)
  moreover have "messages (last (calls (main ?client ?inp'
        ((main ?client ?inp initial)\<lparr>ui := []\<rparr>)))) =
     [\<lparr>role = ascii ''system'',
       content = SYSTEM_PROMPT @ [10, 10] @
         ascii ''Use a formal, professional tone suitable for corporate communication.''\<rparr>,
      \<lparr>role = ascii ''user'', content = ascii ''My wall is damp.''\<rparr>]"
    using session_part [THEN conjunct2, THEN conjunct2, THEN conjunct2] formal by simp
  moreover have "messages (last (snd (generate_response (\<lambda>_ _. Inl IndexError)
       (ascii ''My wall is damp.'') (ascii ''Formal & Professional'')
       [build_request [] []]))) =
     [\<lparr>role = ascii ''system'',
       content = SYSTEM_PROMPT @ [10, 10] @
         ascii ''Use a formal, professional tone suitable for corporate communication.''\<rparr>,
      \<lparr>role = ascii ''user'', content = ascii ''My wall is damp.''\<rparr>]"
    using same [THEN conjunct2, THEN conjunct1] formal by simp
  ultimately show ?thesis
    by (intro conjI)
qed

subsection \<open>The session state\<close>

text \<open>
  C4. When \<open>generate_response\<close> raises in a run where only the generate button is pressed
  (on an enquiry that is not blank), or in a run where only the regenerate button is
  pressed (under a stored response), the session state after the run is the session state
  before it, so the stored response and the stored enquiry are as they were; the run shows
  an error that ends with the text of the exception, and it shows the stored response, if
  there is one.
\<close>

theorem provider_failure_keeps_session:
  "(generate_btn inp \<and> \<not> regenerate_btn inp \<and> strip (enquiry inp) \<noteq> [] \<and>
    fst (generate_response client (enquiry inp) (tone inp) (calls st)) = Inl err \<longrightarrow>
      session (main client inp st) = session st \<and>
      St_error ([10060] @ ascii '' Error from Groq API: '' @ exn_str err)
        \<in> set (ui (main client inp st)) \<and>
      (\<forall>r. session st k_response = Some r \<longrightarrow> St_markdown r \<in> set (ui (main client inp st)))) \<and>
   (\<not> generate_btn inp \<and> regenerate_btn inp \<and> session st k_response = Some shown \<and>
    fst (generate_response client (session_get (session st) k_enquiry []) (tone inp) (calls st)) =
      Inl err \<longrightarrow>
      session (main client inp st) = session st \<and>
      St_error ([10060] @ ascii '' Error: '' @ exn_str err) \<in> set (ui (main client inp st)) \<and>
      St_markdown shown \<in> set (ui (main client inp st)))"
proof (intro conjI impI)
  assume a: "generate_btn inp \<and> \<not> regenerate_btn inp \<and> strip (enquiry inp) \<noteq> [] \<and>
    fst (generate_response client (enquiry inp) (tone inp) (calls st)) = Inl err"
  then have g: "generate_action client inp st =
     st\<lparr>calls := calls st @ [build_request (enquiry inp) (tone inp)],
        ui := ui st @ [St_error ([10060] @ ascii '' Error from Groq API: '' @ exn_str err)]\<rparr>"
    by (simp add: generate_action_raises)
  from a g show "session (main client inp st) = session st"
    by (cases "session st k_response")
       (simp_all add: main_def display_action_empty display_action_idle)
  from a g show "St_error ([10060] @ ascii '' Error from Groq API: '' @ exn_str err)
        \<in> set (ui (main client inp st))"
    by (cases "session st k_response")
       (simp_all add: main_def display_action_empty display_action_idle)
  from a g show "\<forall>r. session st k_response = Some r \<longrightarrow>
      St_markdown r \<in> set (ui (main client inp st))"
    by (simp add: main_def display_action_idle)
next
  assume a: "\<not> generate_btn inp \<and> regenerate_btn inp \<and> session st k_response = Some shown \<and>
    fst (generate_response client (session_get (session st) k_enquiry []) (tone inp) (calls st)) =
      Inl err"
  then have m: "main client inp st =
     st\<lparr>calls := calls st @ [build_request (session_get (session st) k_enquiry []) (tone inp)],
        ui := ui st @ [St_markdown shown, St_code shown,
          St_error ([10060] @ ascii '' Error: '' @ exn_str err)]\<rparr>"
    by (simp add: main_def generate_action_idle display_action_raises)
  show "session (main client inp st) = session st"
    by (simp add: m)
  show "St_error ([10060] @ ascii '' Error: '' @ exn_str err) \<in> set (ui (main client inp st))"
    by (simp add: m)
  show "St_markdown shown \<in> set (ui (main client inp st))"
    by (simp add: m)
qed

text \<open>A provider that rejects the credential, on a fresh session and on one with a stored draft.\<close>

theorem provider_failure_keeps_session_witness:
  "session (main (\<lambda>_ _. Inl (ProviderFailure (ascii ''Invalid API Key'')))
      \<lparr>enquiry = ascii ''My wall is damp.'', tone = ascii ''Formal & Professional'',
       generate_btn = True, regenerate_btn = False\<rparr> initial) = session initial \<and>
   St_error ([10060] @ ascii '' Error from Groq API: '' @ ascii ''Invalid API Key'')
     \<in> set (ui (main (\<lambda>_ _. Inl (ProviderFailure (ascii ''Invalid API Key'')))
      \<lparr>enquiry = ascii ''My wall is damp.'', tone = ascii ''Formal & Professional'',
       generate_btn = True, regenerate_btn = False\<rparr> initial)) \<and>
   session (main (\<lambda>_ _. Inl (ProviderFailure (ascii ''Invalid API Key'')))
      \<lparr>enquiry = [], tone = ascii ''Formal & Professional'',
       generate_btn = False, regenerate_btn = True\<rparr>
      \<lparr>session = [k_response \<mapsto> ascii ''Old draft'', k_enquiry \<mapsto> ascii ''My wall is damp.''],
       calls = [], ui = []\<rparr>) =
     [k_response \<mapsto> ascii ''Old draft'', k_enquiry \<mapsto> ascii ''My wall is damp.''] \<and>
   St_markdown (ascii ''Old draft'')
     \<in> set (ui (main (\<lambda>_ _. Inl (ProviderFailure (ascii ''Invalid API Key'')))
      \<lparr>enquiry = [], tone = ascii ''Formal & Professional'',
       generate_btn = False, regenerate_btn = True\<rparr>
      \<lparr>session = [k_response \<mapsto> ascii ''Old draft'', k_enquiry \<mapsto> ascii ''My wall is damp.''],
       calls = [], ui = []\<rparr>))"
  using
    provider_failure_keeps_session [where
      client = "\<lambda>_ _. Inl (ProviderFailure (ascii ''Invalid API Key''))" and
      inp = "\<lparr>enquiry = ascii ''My wall is damp.'', tone = ascii ''Formal & Professional'',
        generate_btn = True, regenerate_btn = False\<rparr>" and
      st = initial and err = "ProviderFailure (ascii ''Invalid API Key'')"]
    provider_failure_keeps_session [where
      client = "\<lambda>_ _. Inl (ProviderFailure (ascii ''Invalid API Key''))" and
      inp = "\<lparr>enquiry = [], tone = ascii ''Formal & Professional'',
        generate_btn = False, regenerate_btn = True\<rparr>" and
      st = "\<lparr>session = [k_response \<mapsto> ascii ''Old draft'',
          k_enquiry \<mapsto> ascii ''My wall is damp.''], calls = [], ui = []\<rparr>" and
      err = "ProviderFailure (ascii ''Invalid API Key'')" and shown = "ascii ''Old draft''"]
    keys_distinct damp_nonblank
  by (simp add: fst_generate_response)

text \<open>
  C9. After any number of runs from the empty session state, with any inputs and any
  provider: if \<open>last_response\<close> is stored then \<open>last_enquiry\<close> is stored too and is not
  blank; and no request issued in the session, by generation or by regeneration, carries
  a blank enquiry.
\<close>

theorem stored_enquiry_not_blank:
  "(session (run_session client inps initial) k_response \<noteq> None \<longrightarrow>
      (\<exists>e. session (run_session client inps initial) k_enquiry = Some e \<and> strip e \<noteq> [])) \<and>
   (\<forall>r\<in>set (calls (run_session client inps initial)).
      strip (content (last (messages r))) \<noteq> [])"
  using session_ok_run_session [OF session_ok_initial, of client inps]
  by (auto simp: session_ok_def list_all_iff split: option.splits)

text \<open>A session of one successful generation.\<close>

theorem stored_enquiry_not_blank_witness:
  "session (run_session (\<lambda>_ _. Inr [ascii ''Draft''])
      [\<lparr>enquiry = ascii ''My wall is damp.'', tone = ascii ''Formal & Professional'',
        generate_btn = True, regenerate_btn = False\<rparr>] initial) k_response \<noteq> None \<and>
   (\<exists>e. session (run_session (\<lambda>_ _. Inr [ascii ''Draft''])
      [\<lparr>enquiry = ascii ''My wall is damp.'', tone = ascii ''Formal & Professional'',
        generate_btn = True, regenerate_btn = False\<rparr>] initial) k_enquiry = Some e \<and>
      strip e \<noteq> [])"
proof -
  have "session (run_session (\<lambda>_ _. Inr [ascii ''Draft''])
      [\<lparr>enquiry = ascii ''My wall is damp.'', tone = ascii ''Formal & Professional'',
        generate_btn = True, regenerate_btn = False\<rparr>] initial) k_response \<noteq> None"
    using keys_distinct damp_nonblank
    by (simp add: main_def generate_action_returns fst_generate_response display_action_idle)
  then show ?thesis
    using stored_enquiry_not_blank [of "\<lambda>_ _. Inr [ascii ''Draft'']"
      "[\<lparr>enquiry = ascii ''My wall is damp.'', tone = ascii ''Formal & Professional'',
        generate_btn = True, regenerate_btn = False\<rparr>]"]
    by blast
qed

text \<open>
  C10. A run in which only the regenerate button is pressed and \<open>generate_response\<close>
  returns changes the session state at \<open>last_response\<close> and nowhere else: in particular
  \<open>last_enquiry\<close> is as it was. A run in which only the generate button is pressed (on an
  enquiry that is not blank) and \<open>generate_response\<close> returns stores both the response and
  the enquiry.
\<close>

theorem regenerate_writes_response_only:
  "(\<not> generate_btn inp \<and> regenerate_btn inp \<and> session st k_response = Some shown \<and>
    fst (generate_response client (session_get (session st) k_enquiry []) (tone inp) (calls st)) =
      Inr c \<longrightarrow>
      session (main client inp st) = (session st)(k_response \<mapsto> c) \<and>
      session (main client inp st) k_enquiry = session st k_enquiry \<and>
      (\<forall>k. k \<noteq> k_response \<longrightarrow> session (main client inp st) k = session st k)) \<and>
   (generate_btn inp \<and> \<not> regenerate_btn inp \<and> strip (enquiry inp) \<noteq> [] \<and>
    fst (generate_response client (enquiry inp) (tone inp) (calls st)) = Inr c \<longrightarrow>
      session (main client inp st) =
        (session st)(k_response \<mapsto> c, k_enquiry \<mapsto> enquiry inp))"
proof (intro conjI impI)
  assume a: "\<not> generate_btn inp \<and> regenerate_btn inp \<and> session st k_response = Some shown \<and>
    fst (generate_response client (session_get (session st) k_enquiry []) (tone inp) (calls st)) =
      Inr c"
  then have m: "session (main client inp st) = (session st)(k_response \<mapsto> c)"
    by (simp add: main_def generate_action_idle display_action_returns)
  then show "session (main client inp st) = (session st)(k_response \<mapsto> c)" .
  from m show "session (main client inp st) k_enquiry = session st k_enquiry"
    using keys_distinct by simp
  from m show "\<forall>k. k \<noteq> k_response \<longrightarrow> session (main client inp st) k = session st k"
    by simp
next
  assume a: "generate_btn inp \<and> \<not> regenerate_btn inp \<and> strip (enquiry inp) \<noteq> [] \<and>
    fst (generate_response client (enquiry inp) (tone inp) (calls st)) = Inr c"
  then have g: "generate_action client inp st =
     st\<lparr>session := (session st)(k_response \<mapsto> c, k_enquiry \<mapsto> enquiry inp),
        calls := calls st @ [build_request (enquiry inp) (tone inp)]\<rparr>"
    by (simp add: generate_action_returns)
  have "session (generate_action client inp st) k_response = Some c"
    using keys_distinct by (simp add: g)
  with a show "session (main client inp st) =
        (session st)(k_response \<mapsto> c, k_enquiry \<mapsto> enquiry inp)"
    by (simp add: main_def display_action_idle g)
qed

text \<open>A regeneration over a stored draft, and a first generation.\<close>

theorem regenerate_writes_response_only_witness:
  "session (main (\<lambda>_ _. Inr [ascii ''New draft''])
      \<lparr>enquiry = [], tone = ascii ''Formal & Professional'',
       generate_btn = False, regenerate_btn = True\<rparr>
      \<lparr>session = [k_response \<mapsto> ascii ''Old draft'', k_enquiry \<mapsto> ascii ''My wall is damp.''],
       calls = [], ui = []\<rparr>) k_response = Some (ascii ''New draft'') \<and>
   session (main (\<lambda>_ _. Inr [ascii ''New draft''])
      \<lparr>enquiry = [], tone = ascii ''Formal & Professional'',
       generate_btn = False, regenerate_btn = True\<rparr>
      \<lparr>session = [k_response \<mapsto> ascii ''Old draft'', k_enquiry \<mapsto> ascii ''My wall is damp.''],
       calls = [], ui = []\<rparr>) k_enquiry = Some (ascii ''My wall is damp.'') \<and>
   session (main (\<lambda>_ _. Inr [ascii ''New draft''])
      \<lparr>enquiry = ascii ''My wall is damp.'', tone = ascii ''Formal & Professional'',
       generate_btn = True, regenerate_btn = False\<rparr> initial) =
     [k_response \<mapsto> ascii ''New draft'', k_enquiry \<mapsto> ascii ''My wall is damp.'']"
  using
    regenerate_writes_response_only [where
      client = "\<lambda>_ _. Inr [ascii ''New draft'']" and
      inp = "\<lparr>enquiry = [], tone = ascii ''Formal & Professional'',
        generate_btn = False, regenerate_btn = True\<rparr>" and
      st = "\<lparr>session = [k_response \<mapsto> ascii ''Old draft'',
          k_enquiry \<mapsto> ascii ''My wall is damp.''], calls = [], ui = []\<rparr>" and
      c = "ascii ''New draft''" and shown = "ascii ''Old draft''"]
    regenerate_writes_response_only [where
      client = "\<lambda>_ _. Inr [ascii ''New draft'']" and
      inp = "\<lparr>enquiry = ascii ''My wall is damp.'', tone = ascii ''Formal & Professional'',
        generate_btn = True, regenerate_btn = False\<rparr>" and
      st = initial and c = "ascii ''New draft''"]
    keys_distinct damp_nonblank
  by (simp add: fst_generate_response initial_def)

end
